theory Spec2Isabelle
  imports Main
begin

section \<open>Version enumerations (versions.py, lines 22-56)\<close>

text \<open>
  The three classes \<open>ReportingOrgVersion\<close>, \<open>EmissionsReportVersion\<close> and
  \<open>TCSVersion\<close> are Python enumerations that also subclass \<open>str\<close>. Each becomes a
  datatype with one constructor per member. The source reuses member names across
  the classes (\<open>V0_0_1\<close> occurs in all three), so every constructor carries the
  prefix of its class: \<open>RO_\<close>, \<open>ER_\<close>, \<open>TCS_\<close>.
\<close>

datatype ReportingOrgVersion = RO_V0_0_1 | RO_V0_1_0 | RO_V0_1_1 | RO_V0_1_2

datatype EmissionsReportVersion = ER_V0_0_1 | ER_V0_0_2 | ER_V0_0_3

datatype TCSVersion = TCS_V0_0_1 | TCS_V0_0_2 | TCS_V0_1_0

text \<open>The \<open>.value\<close> of a member: the string literal assigned in the class body.\<close>

fun ReportingOrgVersion_value :: "ReportingOrgVersion \<Rightarrow> string" where
  "ReportingOrgVersion_value RO_V0_0_1 = ''0.0.1''"
| "ReportingOrgVersion_value RO_V0_1_0 = ''0.1.0''"
| "ReportingOrgVersion_value RO_V0_1_1 = ''0.1.1''"
| "ReportingOrgVersion_value RO_V0_1_2 = ''0.1.2''"

fun EmissionsReportVersion_value :: "EmissionsReportVersion \<Rightarrow> string" where
  "EmissionsReportVersion_value ER_V0_0_1 = ''0.0.1''"
| "EmissionsReportVersion_value ER_V0_0_2 = ''0.0.2''"
| "EmissionsReportVersion_value ER_V0_0_3 = ''0.0.3''"

fun TCSVersion_value :: "TCSVersion \<Rightarrow> string" where
  "TCSVersion_value TCS_V0_0_1 = ''0.0.1''"
| "TCSVersion_value TCS_V0_0_2 = ''0.0.2''"
| "TCSVersion_value TCS_V0_1_0 = ''0.1.0''"

text \<open>
  Iterating an enumeration class (\<open>list(ReportingOrgVersion)\<close>) yields the members in
  the order of the class body, which is also the version order oldest to newest.
\<close>

definition ReportingOrgVersion_members :: "ReportingOrgVersion list" where
  "ReportingOrgVersion_members = [RO_V0_0_1, RO_V0_1_0, RO_V0_1_1, RO_V0_1_2]"

definition EmissionsReportVersion_members :: "EmissionsReportVersion list" where
  "EmissionsReportVersion_members = [ER_V0_0_1, ER_V0_0_2, ER_V0_0_3]"

definition TCSVersion_members :: "TCSVersion list" where
  "TCSVersion_members = [TCS_V0_0_1, TCS_V0_0_2, TCS_V0_1_0]"

section \<open>String-valued arguments\<close>

text \<open>
  The type annotations of the two predicates are not enforced at run time, and a
  member of a \<open>(str, Enum)\<close> class is itself a \<open>str\<close>. The string-valued objects
  that reach the tables are therefore plain strings and members of any of the
  three classes. \<open>str\<close> comes first in the method resolution order, so \<open>==\<close> and
  \<open>hash\<close> are those of \<open>str\<close>: two such objects are equal exactly when their
  string values are equal, whatever their classes.
\<close>

datatype py_str =
    Str string
  | ReportingOrg ReportingOrgVersion
  | EmissionsReport EmissionsReportVersion
  | TCS TCSVersion

fun str_value :: "py_str \<Rightarrow> string" where
  "str_value (Str s) = s"
| "str_value (ReportingOrg v) = ReportingOrgVersion_value v"
| "str_value (EmissionsReport v) = EmissionsReportVersion_value v"
| "str_value (TCS v) = TCSVersion_value v"

definition str_eq :: "py_str \<Rightarrow> py_str \<Rightarrow> bool" where
  "str_eq a b = (str_value a = str_value b)"

section \<open>Dictionary and list operations used by the module\<close>

datatype py_error = KeyError

text \<open>
  A dictionary literal is kept as the list of its entries in source order. A
  lookup returns the entry whose key equals the argument; the keys of both tables
  are pairwise different, so at most one entry matches.
\<close>

text \<open>\<open>d.get(k, default)\<close>\<close>

fun dict_get :: "(py_str \<times> 'v) list \<Rightarrow> py_str \<Rightarrow> 'v \<Rightarrow> 'v" where
  "dict_get [] k dflt = dflt"
| "dict_get ((k', v) # kvs) k dflt = (if str_eq k' k then v else dict_get kvs k dflt)"

text \<open>\<open>d[k]\<close>, which raises \<open>KeyError\<close> on an absent key\<close>

fun dict_getitem :: "(py_str \<times> 'v) list \<Rightarrow> py_str \<Rightarrow> py_error + 'v" where
  "dict_getitem [] k = Inl KeyError"
| "dict_getitem ((k', v) # kvs) k = (if str_eq k' k then Inr v else dict_getitem kvs k)"

text \<open>\<open>k in d\<close>\<close>

fun dict_contains :: "(py_str \<times> 'v) list \<Rightarrow> py_str \<Rightarrow> bool" where
  "dict_contains [] k = False"
| "dict_contains ((k', v) # kvs) k = (if str_eq k' k then True else dict_contains kvs k)"

text \<open>\<open>x in xs\<close> for a list \<open>xs\<close>\<close>

fun list_contains :: "py_str list \<Rightarrow> py_str \<Rightarrow> bool" where
  "list_contains [] x = False"
| "list_contains (e # es) x = (if str_eq e x then True else list_contains es x)"

section \<open>Constants (versions.py, lines 59-101)\<close>

definition DEFAULT_REPORTING_ORG_VERSION :: py_str where
  "DEFAULT_REPORTING_ORG_VERSION = ReportingOrg RO_V0_1_2"

definition DEFAULT_EMISSIONS_REPORT_VERSION :: py_str where
  "DEFAULT_EMISSIONS_REPORT_VERSION = EmissionsReport ER_V0_0_3"

definition DEFAULT_TCS_VERSION :: py_str where
  "DEFAULT_TCS_VERSION = TCS TCS_V0_1_0"

definition ROUTER_SCHEMA_URL :: string where
  "ROUTER_SCHEMA_URL = ''https://techcarbonstandard.org/schemas/index.json''"

definition REPORTING_ORG_COMPATIBILITY :: "(py_str \<times> py_str list) list" where
  "REPORTING_ORG_COMPATIBILITY =
    [(ReportingOrg RO_V0_1_2,
        [EmissionsReport ER_V0_0_1, EmissionsReport ER_V0_0_2, EmissionsReport ER_V0_0_3]),
     (ReportingOrg RO_V0_1_1,
        [EmissionsReport ER_V0_0_1, EmissionsReport ER_V0_0_2, EmissionsReport ER_V0_0_3]),
     (ReportingOrg RO_V0_1_0,
        [EmissionsReport ER_V0_0_1, EmissionsReport ER_V0_0_2]),
     (ReportingOrg RO_V0_0_1,
        [EmissionsReport ER_V0_0_1])]"

definition EMISSIONS_REPORT_COMPATIBILITY :: "(py_str \<times> py_str list) list" where
  "EMISSIONS_REPORT_COMPATIBILITY =
    [(EmissionsReport ER_V0_0_3, [TCS TCS_V0_0_1, TCS TCS_V0_0_2, TCS TCS_V0_1_0]),
     (EmissionsReport ER_V0_0_2, [TCS TCS_V0_0_1, TCS TCS_V0_0_2]),
     (EmissionsReport ER_V0_0_1, [TCS TCS_V0_0_1])]"

section \<open>The two predicates (versions.py, lines 104-161)\<close>

definition is_emissions_report_compatible :: "py_str \<Rightarrow> py_str \<Rightarrow> bool" where
  "is_emissions_report_compatible reporting_org_version emissions_report_version =
    (let compatible_versions = dict_get REPORTING_ORG_COMPATIBILITY reporting_org_version []
     in list_contains compatible_versions emissions_report_version)"

definition is_tcs_compatible :: "py_str \<Rightarrow> py_str \<Rightarrow> bool" where
  "is_tcs_compatible emissions_report_version tcs_version =
    (let compatible_versions = dict_get EMISSIONS_REPORT_COMPATIBILITY emissions_report_version []
     in list_contains compatible_versions tcs_version)"

section \<open>The matrices as the specification lists them\<close>

text \<open>
  The pairs of section 6 of the specification, written down from its text and
  independently of the tables above:
  Reporting-Org to Emissions-Report
  \<open>0.1.2 \<rightarrow> {0.0.1, 0.0.2, 0.0.3}\<close>, \<open>0.1.1 \<rightarrow> {0.0.1, 0.0.2, 0.0.3}\<close>,
  \<open>0.1.0 \<rightarrow> {0.0.1, 0.0.2}\<close>, \<open>0.0.1 \<rightarrow> {0.0.1}\<close>;
  Emissions-Report to TCS-data
  \<open>0.0.3 \<rightarrow> {0.0.1, 0.0.2, 0.1.0}\<close>, \<open>0.0.2 \<rightarrow> {0.0.1, 0.0.2}\<close>, \<open>0.0.1 \<rightarrow> {0.0.1}\<close>.
\<close>

definition spec_reporting_org_pairs :: "(string \<times> string) list" where
  "spec_reporting_org_pairs =
    [(''0.1.2'', ''0.0.1''), (''0.1.2'', ''0.0.2''), (''0.1.2'', ''0.0.3''),
     (''0.1.1'', ''0.0.1''), (''0.1.1'', ''0.0.2''), (''0.1.1'', ''0.0.3''),
     (''0.1.0'', ''0.0.1''), (''0.1.0'', ''0.0.2''),
     (''0.0.1'', ''0.0.1'')]"

definition spec_emissions_report_pairs :: "(string \<times> string) list" where
  "spec_emissions_report_pairs =
    [(''0.0.3'', ''0.0.1''), (''0.0.3'', ''0.0.2''), (''0.0.3'', ''0.1.0''),
     (''0.0.2'', ''0.0.1''), (''0.0.2'', ''0.0.2''),
     (''0.0.1'', ''0.0.1'')]"

section \<open>Position in an enumeration\<close>

text \<open>
  The version order of a layer is the order of its class body. \<open>position xs x\<close> is
  the index of the first occurrence of \<open>x\<close> in \<open>xs\<close> (and \<open>length xs\<close> when there is
  none); \<open>older xs a b\<close> says that \<open>a\<close> comes before \<open>b\<close> in \<open>xs\<close>.
\<close>

fun position :: "'a list \<Rightarrow> 'a \<Rightarrow> nat" where
  "position [] x = 0"
| "position (y # ys) x = (if y = x then 0 else Suc (position ys x))"

definition older :: "'a list \<Rightarrow> 'a \<Rightarrow> 'a \<Rightarrow> bool" where
  "older xs a b = (position xs a < position xs b)"

section \<open>Evaluation of the predicates on members\<close>

lemma is_emissions_report_compatible_table:
  "is_emissions_report_compatible (ReportingOrg p) (EmissionsReport c) =
     (case p of
        RO_V0_1_2 \<Rightarrow> True
      | RO_V0_1_1 \<Rightarrow> True
      | RO_V0_1_0 \<Rightarrow> c \<noteq> ER_V0_0_3
      | RO_V0_0_1 \<Rightarrow> c = ER_V0_0_1)"
  by (cases p; cases c)
     (simp_all add: is_emissions_report_compatible_def REPORTING_ORG_COMPATIBILITY_def str_eq_def)

lemma is_tcs_compatible_table:
  "is_tcs_compatible (EmissionsReport p) (TCS c) =
     (case p of
        ER_V0_0_3 \<Rightarrow> True
      | ER_V0_0_2 \<Rightarrow> c \<noteq> TCS_V0_1_0
      | ER_V0_0_1 \<Rightarrow> c = TCS_V0_0_1)"
  by (cases p; cases c)
     (simp_all add: is_tcs_compatible_def EMISSIONS_REPORT_COMPATIBILITY_def str_eq_def)

section \<open>The compatibility matrices\<close>

text \<open>
  C1. For a Reporting-Org member \<open>p\<close> and an Emissions-Report member \<open>c\<close>,
  \<open>is_emissions_report_compatible\<close> returns true exactly when the pair of their
  values is one of the pairs the specification lists for the first matrix, and
  false for every other pair of the cross product of the two enumerations; the
  same holds for \<open>is_tcs_compatible\<close>, an Emissions-Report member \<open>q\<close>, a TCS member
  \<open>d\<close> and the second matrix.
\<close>

theorem listed_pairs_exactly_compatible:
  "is_emissions_report_compatible (ReportingOrg p) (EmissionsReport c) =
     ((ReportingOrgVersion_value p, EmissionsReportVersion_value c)
        \<in> set spec_reporting_org_pairs)
   \<and> is_tcs_compatible (EmissionsReport q) (TCS d) =
     ((EmissionsReportVersion_value q, TCSVersion_value d)
        \<in> set spec_emissions_report_pairs)"
proof
  show "is_emissions_report_compatible (ReportingOrg p) (EmissionsReport c) =
     ((ReportingOrgVersion_value p, EmissionsReportVersion_value c)
        \<in> set spec_reporting_org_pairs)"
    unfolding is_emissions_report_compatible_table
    by (cases p; cases c) (simp_all add: spec_reporting_org_pairs_def)
  show "is_tcs_compatible (EmissionsReport q) (TCS d) =
     ((EmissionsReportVersion_value q, TCSVersion_value d)
        \<in> set spec_emissions_report_pairs)"
    unfolding is_tcs_compatible_table
    by (cases q; cases d) (simp_all add: spec_emissions_report_pairs_def)
qed

section \<open>Lookups depend on string values only\<close>

lemma dict_get_str_value:
  "str_value k = str_value k' \<Longrightarrow> dict_get kvs k dflt = dict_get kvs k' dflt"
  by (induction kvs) (auto simp: str_eq_def)

lemma list_contains_str_value:
  "str_value x = str_value x' \<Longrightarrow> list_contains es x = list_contains es x'"
  by (induction es) (auto simp: str_eq_def)

lemma dict_get_absent:
  "\<not> dict_contains kvs k \<Longrightarrow> dict_get kvs k dflt = dflt"
  by (induction kvs) (auto split: if_splits)

lemma dict_contains_REPORTING_ORG_COMPATIBILITY:
  "dict_contains REPORTING_ORG_COMPATIBILITY k =
     (str_value k \<in> {''0.0.1'', ''0.1.0'', ''0.1.1'', ''0.1.2''})"
  by (auto simp: REPORTING_ORG_COMPATIBILITY_def str_eq_def)

lemma dict_contains_EMISSIONS_REPORT_COMPATIBILITY:
  "dict_contains EMISSIONS_REPORT_COMPATIBILITY k =
     (str_value k \<in> {''0.0.1'', ''0.0.2'', ''0.0.3''})"
  by (auto simp: EMISSIONS_REPORT_COMPATIBILITY_def str_eq_def)

lemma is_emissions_report_compatible_iff:
  "is_emissions_report_compatible p c =
     ((str_value p, str_value c) \<in> set spec_reporting_org_pairs)"
  by (auto simp: is_emissions_report_compatible_def REPORTING_ORG_COMPATIBILITY_def
        spec_reporting_org_pairs_def str_eq_def)

lemma is_tcs_compatible_iff:
  "is_tcs_compatible p c =
     ((str_value p, str_value c) \<in> set spec_emissions_report_pairs)"
  by (auto simp: is_tcs_compatible_def EMISSIONS_REPORT_COMPATIBILITY_def
        spec_emissions_report_pairs_def str_eq_def)

lemma UNIV_ReportingOrgVersion:
  "(UNIV :: ReportingOrgVersion set) = {RO_V0_0_1, RO_V0_1_0, RO_V0_1_1, RO_V0_1_2}"
proof
  show "(UNIV :: ReportingOrgVersion set) \<subseteq> {RO_V0_0_1, RO_V0_1_0, RO_V0_1_1, RO_V0_1_2}"
  proof
    fix v :: ReportingOrgVersion
    show "v \<in> {RO_V0_0_1, RO_V0_1_0, RO_V0_1_1, RO_V0_1_2}" by (cases v) simp_all
  qed
qed simp

lemma UNIV_EmissionsReportVersion:
  "(UNIV :: EmissionsReportVersion set) = {ER_V0_0_1, ER_V0_0_2, ER_V0_0_3}"
proof
  show "(UNIV :: EmissionsReportVersion set) \<subseteq> {ER_V0_0_1, ER_V0_0_2, ER_V0_0_3}"
  proof
    fix v :: EmissionsReportVersion
    show "v \<in> {ER_V0_0_1, ER_V0_0_2, ER_V0_0_3}" by (cases v) simp_all
  qed
qed simp

lemma UNIV_TCSVersion:
  "(UNIV :: TCSVersion set) = {TCS_V0_0_1, TCS_V0_0_2, TCS_V0_1_0}"
proof
  show "(UNIV :: TCSVersion set) \<subseteq> {TCS_V0_0_1, TCS_V0_0_2, TCS_V0_1_0}"
  proof
    fix v :: TCSVersion
    show "v \<in> {TCS_V0_0_1, TCS_V0_0_2, TCS_V0_1_0}" by (cases v) simp_all
  qed
qed simp

section \<open>Unknown identifiers\<close>

text \<open>
  C2. Both predicates are total functions from two string-valued arguments to a
  truth value: \<open>dict.get\<close> with a default and \<open>in\<close> on a list have no raising
  branch, so the model has no error result. For every parent \<open>p\<close> that is not a
  key of \<open>REPORTING_ORG_COMPATIBILITY\<close>, \<open>is_emissions_report_compatible p c\<close> is
  false for every child \<open>c\<close>; for every parent \<open>q\<close> that is not a key of
  \<open>EMISSIONS_REPORT_COMPATIBILITY\<close>, \<open>is_tcs_compatible q d\<close> is false for every
  child \<open>d\<close>.
\<close>

theorem unknown_parent_yields_false:
  "(\<not> dict_contains REPORTING_ORG_COMPATIBILITY p \<longrightarrow>
      is_emissions_report_compatible p c = False)
   \<and> (\<not> dict_contains EMISSIONS_REPORT_COMPATIBILITY q \<longrightarrow>
      is_tcs_compatible q d = False)"
  by (simp add: is_emissions_report_compatible_def is_tcs_compatible_def dict_get_absent)

theorem unknown_parent_yields_false_witness:
  "\<not> dict_contains REPORTING_ORG_COMPATIBILITY (Str ''9.9.9'')
   \<and> is_emissions_report_compatible (Str ''9.9.9'') (EmissionsReport ER_V0_0_1) = False
   \<and> \<not> dict_contains EMISSIONS_REPORT_COMPATIBILITY (ReportingOrg RO_V0_1_2)
   \<and> is_tcs_compatible (ReportingOrg RO_V0_1_2) (TCS TCS_V0_0_1) = False"
  using unknown_parent_yields_false
    [of "Str ''9.9.9''" "EmissionsReport ER_V0_0_1" "ReportingOrg RO_V0_1_2" "TCS TCS_V0_0_1"]
  by (simp add: REPORTING_ORG_COMPATIBILITY_def EMISSIONS_REPORT_COMPATIBILITY_def str_eq_def)

section \<open>Shape of the matrices\<close>

text \<open>
  C3. If \<open>p_old\<close> comes before \<open>p_new\<close> in the Reporting-Org enumeration, both have
  an entry in \<open>REPORTING_ORG_COMPATIBILITY\<close>, and every child in the entry of
  \<open>p_old\<close> is in the entry of \<open>p_new\<close>, which is therefore at least as long. The
  same holds for the Emissions-Report enumeration and
  \<open>EMISSIONS_REPORT_COMPATIBILITY\<close>.
\<close>

theorem newer_parent_accepts_superset:
  "(older ReportingOrgVersion_members p_old p_new \<longrightarrow>
      (\<exists>cs_old cs_new.
         dict_getitem REPORTING_ORG_COMPATIBILITY (ReportingOrg p_old) = Inr cs_old
         \<and> dict_getitem REPORTING_ORG_COMPATIBILITY (ReportingOrg p_new) = Inr cs_new
         \<and> set cs_old \<subseteq> set cs_new \<and> length cs_old \<le> length cs_new))
   \<and> (older EmissionsReportVersion_members q_old q_new \<longrightarrow>
      (\<exists>ds_old ds_new.
         dict_getitem EMISSIONS_REPORT_COMPATIBILITY (EmissionsReport q_old) = Inr ds_old
         \<and> dict_getitem EMISSIONS_REPORT_COMPATIBILITY (EmissionsReport q_new) = Inr ds_new
         \<and> set ds_old \<subseteq> set ds_new \<and> length ds_old \<le> length ds_new))"
proof
  show "older ReportingOrgVersion_members p_old p_new \<longrightarrow>
      (\<exists>cs_old cs_new.
         dict_getitem REPORTING_ORG_COMPATIBILITY (ReportingOrg p_old) = Inr cs_old
         \<and> dict_getitem REPORTING_ORG_COMPATIBILITY (ReportingOrg p_new) = Inr cs_new
         \<and> set cs_old \<subseteq> set cs_new \<and> length cs_old \<le> length cs_new)"
    by (cases p_old; cases p_new)
       (simp_all add: older_def ReportingOrgVersion_members_def
          REPORTING_ORG_COMPATIBILITY_def str_eq_def)
  show "older EmissionsReportVersion_members q_old q_new \<longrightarrow>
      (\<exists>ds_old ds_new.
         dict_getitem EMISSIONS_REPORT_COMPATIBILITY (EmissionsReport q_old) = Inr ds_old
         \<and> dict_getitem EMISSIONS_REPORT_COMPATIBILITY (EmissionsReport q_new) = Inr ds_new
         \<and> set ds_old \<subseteq> set ds_new \<and> length ds_old \<le> length ds_new)"
    by (cases q_old; cases q_new)
       (simp_all add: older_def EmissionsReportVersion_members_def
          EMISSIONS_REPORT_COMPATIBILITY_def str_eq_def)
qed

theorem newer_parent_accepts_superset_witness:
  "older ReportingOrgVersion_members RO_V0_1_0 RO_V0_1_1
   \<and> (\<exists>cs_old cs_new.
         dict_getitem REPORTING_ORG_COMPATIBILITY (ReportingOrg RO_V0_1_0) = Inr cs_old
         \<and> dict_getitem REPORTING_ORG_COMPATIBILITY (ReportingOrg RO_V0_1_1) = Inr cs_new
         \<and> set cs_old \<subseteq> set cs_new \<and> length cs_old \<le> length cs_new)
   \<and> older EmissionsReportVersion_members ER_V0_0_1 ER_V0_0_3
   \<and> (\<exists>ds_old ds_new.
         dict_getitem EMISSIONS_REPORT_COMPATIBILITY (EmissionsReport ER_V0_0_1) = Inr ds_old
         \<and> dict_getitem EMISSIONS_REPORT_COMPATIBILITY (EmissionsReport ER_V0_0_3) = Inr ds_new
         \<and> set ds_old \<subseteq> set ds_new \<and> length ds_old \<le> length ds_new)"
proof -
  have ro: "older ReportingOrgVersion_members RO_V0_1_0 RO_V0_1_1"
    by (simp add: older_def ReportingOrgVersion_members_def)
  have er: "older EmissionsReportVersion_members ER_V0_0_1 ER_V0_0_3"
    by (simp add: older_def EmissionsReportVersion_members_def)
  show ?thesis
    using ro er newer_parent_accepts_superset [of RO_V0_1_0 RO_V0_1_1 ER_V0_0_1 ER_V0_0_3]
    by blast
qed

text \<open>
  C4. Every member of \<open>ReportingOrgVersion\<close> is a key of
  \<open>REPORTING_ORG_COMPATIBILITY\<close> and every member of \<open>EmissionsReportVersion\<close> is
  a key of \<open>EMISSIONS_REPORT_COMPATIBILITY\<close>; subscripting the table with the
  member raises no \<open>KeyError\<close> and returns a list that is not empty.
\<close>

theorem every_member_has_nonempty_entry:
  "dict_contains REPORTING_ORG_COMPATIBILITY (ReportingOrg p)
   \<and> (\<exists>cs. dict_getitem REPORTING_ORG_COMPATIBILITY (ReportingOrg p) = Inr cs \<and> cs \<noteq> [])
   \<and> dict_contains EMISSIONS_REPORT_COMPATIBILITY (EmissionsReport q)
   \<and> (\<exists>ds. dict_getitem EMISSIONS_REPORT_COMPATIBILITY (EmissionsReport q) = Inr ds \<and> ds \<noteq> [])"
proof -
  have "dict_contains REPORTING_ORG_COMPATIBILITY (ReportingOrg p)
      \<and> (\<exists>cs. dict_getitem REPORTING_ORG_COMPATIBILITY (ReportingOrg p) = Inr cs \<and> cs \<noteq> [])"
    by (cases p) (simp_all add: REPORTING_ORG_COMPATIBILITY_def str_eq_def)
  moreover
  have "dict_contains EMISSIONS_REPORT_COMPATIBILITY (EmissionsReport q)
      \<and> (\<exists>ds. dict_getitem EMISSIONS_REPORT_COMPATIBILITY (EmissionsReport q) = Inr ds \<and> ds \<noteq> [])"
    by (cases q) (simp_all add: EMISSIONS_REPORT_COMPATIBILITY_def str_eq_def)
  ultimately show ?thesis by simp
qed

text \<open>
  C8. Every accepted-child set is closed towards older children: whatever the
  parent \<open>p\<close>, if \<open>c_old\<close> comes before \<open>c_new\<close> in the Emissions-Report
  enumeration and \<open>is_emissions_report_compatible\<close> accepts \<open>c_new\<close> for \<open>p\<close>, it
  accepts \<open>c_old\<close> for \<open>p\<close> as well; the same holds for \<open>is_tcs_compatible\<close> and the
  TCS enumeration.
\<close>

theorem accepted_children_downward_closed:
  "(older EmissionsReportVersion_members c_old c_new
      \<and> is_emissions_report_compatible p (EmissionsReport c_new)
    \<longrightarrow> is_emissions_report_compatible p (EmissionsReport c_old))
   \<and> (older TCSVersion_members d_old d_new
      \<and> is_tcs_compatible q (TCS d_new)
    \<longrightarrow> is_tcs_compatible q (TCS d_old))"
proof
  show "older EmissionsReportVersion_members c_old c_new
      \<and> is_emissions_report_compatible p (EmissionsReport c_new)
    \<longrightarrow> is_emissions_report_compatible p (EmissionsReport c_old)"
    unfolding is_emissions_report_compatible_iff
    by (cases c_old; cases c_new)
       (auto simp: older_def EmissionsReportVersion_members_def spec_reporting_org_pairs_def)
  show "older TCSVersion_members d_old d_new
      \<and> is_tcs_compatible q (TCS d_new)
    \<longrightarrow> is_tcs_compatible q (TCS d_old)"
    unfolding is_tcs_compatible_iff
    by (cases d_old; cases d_new)
       (auto simp: older_def TCSVersion_members_def spec_emissions_report_pairs_def)
qed

theorem accepted_children_downward_closed_witness:
  "older EmissionsReportVersion_members ER_V0_0_1 ER_V0_0_3
   \<and> is_emissions_report_compatible (ReportingOrg RO_V0_1_1) (EmissionsReport ER_V0_0_3)
   \<and> is_emissions_report_compatible (ReportingOrg RO_V0_1_1) (EmissionsReport ER_V0_0_1)
   \<and> older TCSVersion_members TCS_V0_0_1 TCS_V0_0_2
   \<and> is_tcs_compatible (EmissionsReport ER_V0_0_2) (TCS TCS_V0_0_2)
   \<and> is_tcs_compatible (EmissionsReport ER_V0_0_2) (TCS TCS_V0_0_1)"
proof -
  have a: "older EmissionsReportVersion_members ER_V0_0_1 ER_V0_0_3"
    by (simp add: older_def EmissionsReportVersion_members_def)
  have b: "is_emissions_report_compatible (ReportingOrg RO_V0_1_1) (EmissionsReport ER_V0_0_3)"
    by (simp add: is_emissions_report_compatible_table)
  have c: "older TCSVersion_members TCS_V0_0_1 TCS_V0_0_2"
    by (simp add: older_def TCSVersion_members_def)
  have d: "is_tcs_compatible (EmissionsReport ER_V0_0_2) (TCS TCS_V0_0_2)"
    by (simp add: is_tcs_compatible_table)
  show ?thesis
    using a b c d
      accepted_children_downward_closed
        [of ER_V0_0_1 ER_V0_0_3 "ReportingOrg RO_V0_1_1" TCS_V0_0_1 TCS_V0_0_2
            "EmissionsReport ER_V0_0_2"]
    by blast
qed

section \<open>Enumerations and constants\<close>

text \<open>
  C5. The values of the members of \<open>ReportingOrgVersion\<close>, in class-body order,
  are the four strings 0.0.1, 0.1.0, 0.1.1, 0.1.2; those of
  \<open>EmissionsReportVersion\<close> are the three strings 0.0.1, 0.0.2, 0.0.3; those of
  \<open>TCSVersion\<close> are the three strings 0.0.1, 0.0.2, 0.1.0. The member lists
  are complete and free of repetition, so the enumerations have 4, 3 and 3
  members and no value other than the listed ones.
\<close>

theorem enumerations_hold_exactly_the_listed_values:
  "map ReportingOrgVersion_value ReportingOrgVersion_members =
     [''0.0.1'', ''0.1.0'', ''0.1.1'', ''0.1.2'']
   \<and> set ReportingOrgVersion_members = UNIV
   \<and> card (range ReportingOrgVersion_value) = 4
   \<and> range ReportingOrgVersion_value = {''0.0.1'', ''0.1.0'', ''0.1.1'', ''0.1.2''}
   \<and> map EmissionsReportVersion_value EmissionsReportVersion_members =
     [''0.0.1'', ''0.0.2'', ''0.0.3'']
   \<and> set EmissionsReportVersion_members = UNIV
   \<and> card (range EmissionsReportVersion_value) = 3
   \<and> range EmissionsReportVersion_value = {''0.0.1'', ''0.0.2'', ''0.0.3''}
   \<and> map TCSVersion_value TCSVersion_members = [''0.0.1'', ''0.0.2'', ''0.1.0'']
   \<and> set TCSVersion_members = UNIV
   \<and> card (range TCSVersion_value) = 3
   \<and> range TCSVersion_value = {''0.0.1'', ''0.0.2'', ''0.1.0''}"
proof -
  have ro: "range ReportingOrgVersion_value = {''0.0.1'', ''0.1.0'', ''0.1.1'', ''0.1.2''}"
    by (simp add: UNIV_ReportingOrgVersion)
  have er: "range EmissionsReportVersion_value = {''0.0.1'', ''0.0.2'', ''0.0.3''}"
    by (simp add: UNIV_EmissionsReportVersion)
  have tcs: "range TCSVersion_value = {''0.0.1'', ''0.0.2'', ''0.1.0''}"
    by (simp add: UNIV_TCSVersion)
  have ro_card: "card (range ReportingOrgVersion_value) = 4"
    unfolding ro by simp
  have er_card: "card (range EmissionsReportVersion_value) = 3"
    unfolding er by simp
  have tcs_card: "card (range TCSVersion_value) = 3"
    unfolding tcs by simp
  have ro_all: "set ReportingOrgVersion_members = UNIV"
    by (simp add: ReportingOrgVersion_members_def UNIV_ReportingOrgVersion)
  have er_all: "set EmissionsReportVersion_members = UNIV"
    by (simp add: EmissionsReportVersion_members_def UNIV_EmissionsReportVersion)
  have tcs_all: "set TCSVersion_members = UNIV"
    by (simp add: TCSVersion_members_def UNIV_TCSVersion)
  show ?thesis
    using ro er tcs ro_card er_card tcs_card ro_all er_all tcs_all
    by (simp add: ReportingOrgVersion_members_def EmissionsReportVersion_members_def
          TCSVersion_members_def)
qed

text \<open>
  C6. Each default constant is the last, that is the newest, member of its
  enumeration, and compares equal to its own string literal:
  \<open>DEFAULT_REPORTING_ORG_VERSION\<close> is member \<open>V0_1_2\<close> and equals the string 0.1.2,
  \<open>DEFAULT_EMISSIONS_REPORT_VERSION\<close> is member \<open>V0_0_3\<close> and equals the string
  0.0.3, \<open>DEFAULT_TCS_VERSION\<close> is member \<open>V0_1_0\<close> and equals the string 0.1.0.
\<close>

theorem defaults_are_newest_members:
  "DEFAULT_REPORTING_ORG_VERSION = ReportingOrg (last ReportingOrgVersion_members)
   \<and> DEFAULT_REPORTING_ORG_VERSION = ReportingOrg RO_V0_1_2
   \<and> str_eq DEFAULT_REPORTING_ORG_VERSION (Str ''0.1.2'')
   \<and> DEFAULT_EMISSIONS_REPORT_VERSION = EmissionsReport (last EmissionsReportVersion_members)
   \<and> DEFAULT_EMISSIONS_REPORT_VERSION = EmissionsReport ER_V0_0_3
   \<and> str_eq DEFAULT_EMISSIONS_REPORT_VERSION (Str ''0.0.3'')
   \<and> DEFAULT_TCS_VERSION = TCS (last TCSVersion_members)
   \<and> DEFAULT_TCS_VERSION = TCS TCS_V0_1_0
   \<and> str_eq DEFAULT_TCS_VERSION (Str ''0.1.0'')"
  by (simp add: DEFAULT_REPORTING_ORG_VERSION_def DEFAULT_EMISSIONS_REPORT_VERSION_def
        DEFAULT_TCS_VERSION_def ReportingOrgVersion_members_def
        EmissionsReportVersion_members_def TCSVersion_members_def str_eq_def)

text \<open>
  C7. \<open>ROUTER_SCHEMA_URL\<close> is, character for character, the 49-character string
  \<open>https://techcarbonstandard.org/schemas/index.json\<close>.
\<close>

theorem router_schema_url_literal:
  "ROUTER_SCHEMA_URL = ''https://techcarbonstandard.org/schemas/index.json''
   \<and> length ROUTER_SCHEMA_URL = 49"
  by (simp add: ROUTER_SCHEMA_URL_def)

text \<open>
  C9. The three default constants are mutually compatible:
  \<open>is_emissions_report_compatible\<close> accepts the default Emissions-Report version
  for the default Reporting-Org version, and \<open>is_tcs_compatible\<close> accepts the
  default TCS version for the default Emissions-Report version.
\<close>

theorem defaults_are_mutually_compatible:
  "is_emissions_report_compatible DEFAULT_REPORTING_ORG_VERSION DEFAULT_EMISSIONS_REPORT_VERSION
   \<and> is_tcs_compatible DEFAULT_EMISSIONS_REPORT_VERSION DEFAULT_TCS_VERSION"
  by (simp add: DEFAULT_REPORTING_ORG_VERSION_def DEFAULT_EMISSIONS_REPORT_VERSION_def
        DEFAULT_TCS_VERSION_def is_emissions_report_compatible_def is_tcs_compatible_def
        REPORTING_ORG_COMPATIBILITY_def EMISSIONS_REPORT_COMPATIBILITY_def str_eq_def)

section \<open>Plain strings in place of members\<close>

text \<open>
  C10. The predicates see their arguments through their string values only:
  replacing the parent \<open>p\<close> (a member of any of the classes, or a string) by the
  plain string of its value, or the child \<open>c\<close> by the plain string of its value,
  leaves the result of \<open>is_emissions_report_compatible\<close> and of \<open>is_tcs_compatible\<close>
  unchanged.
\<close>

theorem plain_string_same_as_member:
  "is_emissions_report_compatible (Str (str_value p)) c = is_emissions_report_compatible p c
   \<and> is_emissions_report_compatible p (Str (str_value c)) = is_emissions_report_compatible p c
   \<and> is_tcs_compatible (Str (str_value p)) c = is_tcs_compatible p c
   \<and> is_tcs_compatible p (Str (str_value c)) = is_tcs_compatible p c"
proof -
  have k: "dict_get kvs (Str (str_value p)) [] = dict_get kvs p []"
    for kvs :: "(py_str \<times> py_str list) list"
    by (rule dict_get_str_value) simp
  have x: "list_contains es (Str (str_value c)) = list_contains es c" for es
    by (rule list_contains_str_value) simp
  show ?thesis
    by (simp add: is_emissions_report_compatible_def is_tcs_compatible_def k x)
qed

end
